theory Spec2Isabelle
  imports Main "HOL-Library.Word" "HOL-Library.Code_Target_Nat"
begin

unbundle bit_operations_syntax

section \<open>Bytes, errors and the DataView primitives\<close>

text \<open>
  An ArrayBuffer is a list of bytes. Every JavaScript exception the code can meet is a value of
  \<open>error\<close>; a computation that may throw returns \<open>error + 'a\<close>, with \<open>Inl\<close> for the exception.
\<close>

type_synonym byte = "8 word"
type_synonym bytes = "byte list"

datatype error =
    RangeError
  | ReferenceError string
  | Error string

definition bindE :: "error + 'a \<Rightarrow> ('a \<Rightarrow> error + 'b) \<Rightarrow> error + 'b" where
  "bindE m f = (case m of Inl e \<Rightarrow> Inl e | Inr x \<Rightarrow> f x)"

definition HEADER_EOCDR :: nat where "HEADER_EOCDR = 0x06054b50"
definition HEADER_CD :: nat where "HEADER_CD = 0x02014b50"
definition HEADER_LOCAL :: nat where "HEADER_LOCAL = 0x04034b50"

text \<open>The value of a run of bytes read little-endian (\<open>littleEndian = true\<close> in every call).\<close>

fun le_value :: "bytes \<Rightarrow> nat" where
  "le_value [] = 0"
| "le_value (b # bs) = unat b + 256 * le_value bs"

text \<open>
  \<open>DataView.getUint16\<close> and \<open>getUint32\<close>: a negative offset, or one whose field runs past the end
  of the view, throws a RangeError.
\<close>

definition getUint :: "nat \<Rightarrow> bytes \<Rightarrow> int \<Rightarrow> error + nat" where
  "getUint w view byteOffset =
     (if byteOffset < 0 \<or> int (length view) < byteOffset + int w then Inl RangeError
      else Inr (le_value (take w (drop (nat byteOffset) view))))"

definition getUint16 :: "bytes \<Rightarrow> int \<Rightarrow> error + nat" where
  "getUint16 = getUint 2"

definition getUint32 :: "bytes \<Rightarrow> int \<Rightarrow> error + nat" where
  "getUint32 = getUint 4"

section \<open>ZipArchive.findEOCDR\<close>

text \<open>
  \<open>let position = length - 4; while (position--) { if (view.getUint32(position, true) ==
  HEADER_EOCDR) return position; } throw new Error(...)\<close>.
  The post-decrement tests the old value of \<open>position\<close> (zero ends the loop) and the body sees
  the decremented one. A returned position is one at which \<open>getUint32\<close> succeeded, so it is
  not negative and is returned as a \<open>nat\<close>.
\<close>

function findEOCDR_loop :: "bytes \<Rightarrow> int \<Rightarrow> error + nat" where
  "findEOCDR_loop view position =
     (if position = 0 then Inl (Error ''No end of central directory record found'')
      else (case getUint32 view (position - 1) of
              Inl e \<Rightarrow> Inl e
            | Inr signature \<Rightarrow>
                if signature = HEADER_EOCDR then Inr (nat (position - 1))
                else findEOCDR_loop view (position - 1)))"
  by pat_completeness auto
termination
  by (relation "measure (\<lambda>(view, position). nat position)")
     (auto simp: getUint32_def getUint_def split: if_splits)

declare findEOCDR_loop.simps [simp del]

definition findEOCDR :: "bytes \<Rightarrow> error + nat" where
  "findEOCDR view = findEOCDR_loop view (int (length view) - 4)"


section \<open>Strings\<close>

text \<open>
  A JavaScript string is a sequence of UTF-16 code units. \<open>str\<close> gives the string whose code
  units are the codes of the characters of a literal, for writing names such as \<open>str ''a''\<close>.
\<close>

type_synonym js_string = "16 word list"

definition str :: "string \<Rightarrow> js_string" where
  "str literal = map (\<lambda>c. of_nat (of_char c)) literal"

text \<open>
  \<open>new TextDecoder()\<close> is the UTF-8 decoder of the Encoding Standard in replacement mode: an
  ill-formed sequence gives U+FFFD, and a byte that cannot continue a sequence is read again
  as the start of the next one. \<open>utf8_decoder\<close> carries the decoder's code point, bytes seen,
  bytes needed and lower and upper boundary, and lists the code points (\<open>byte & 0x1F\<close> is
  \<open>byte mod 32\<close>, \<open>code_point << 6\<close> is \<open>code_point * 64\<close>). \<open>decode\<close> then drops a leading
  U+FEFF (\<open>ignoreBOM\<close> is false) and the string holds a code point above \<open>0xFFFF\<close> as a
  surrogate pair.
\<close>

function utf8_decoder :: "nat \<Rightarrow> nat \<Rightarrow> nat \<Rightarrow> nat \<Rightarrow> nat \<Rightarrow> bytes \<Rightarrow> nat list" where
  "utf8_decoder code_point seen needed lower upper [] =
     (if needed \<noteq> 0 then [0xFFFD] else [])"
| "utf8_decoder code_point seen needed lower upper (b # stream) =
     (let byte = unat b
      in if needed = 0 then
           (if byte \<le> 0x7F then byte # utf8_decoder 0 0 0 0x80 0xBF stream
            else if 0xC2 \<le> byte \<and> byte \<le> 0xDF then
              utf8_decoder (byte mod 32) 0 1 0x80 0xBF stream
            else if 0xE0 \<le> byte \<and> byte \<le> 0xEF then
              utf8_decoder (byte mod 16) 0 2 (if byte = 0xE0 then 0xA0 else 0x80)
                (if byte = 0xED then 0x9F else 0xBF) stream
            else if 0xF0 \<le> byte \<and> byte \<le> 0xF4 then
              utf8_decoder (byte mod 8) 0 3 (if byte = 0xF0 then 0x90 else 0x80)
                (if byte = 0xF4 then 0x8F else 0xBF) stream
            else 0xFFFD # utf8_decoder 0 0 0 0x80 0xBF stream)
         else if byte < lower \<or> upper < byte then
           0xFFFD # utf8_decoder 0 0 0 0x80 0xBF (b # stream)
         else if seen + 1 \<noteq> needed then
           utf8_decoder (code_point * 64 + byte mod 64) (seen + 1) needed 0x80 0xBF stream
         else (code_point * 64 + byte mod 64) # utf8_decoder 0 0 0 0x80 0xBF stream)"
  by pat_completeness auto
termination
  by (relation "measure (\<lambda>(code_point, seen, needed, lower, upper, stream).
        2 * length stream + (if needed = 0 then 0 else 1))") auto

definition strip_BOM :: "nat list \<Rightarrow> nat list" where
  "strip_BOM code_points =
     (case code_points of
        [] \<Rightarrow> []
      | c # rest \<Rightarrow> if c = 0xFEFF then rest else c # rest)"

definition utf16_units :: "nat \<Rightarrow> js_string" where
  "utf16_units c =
     (if c < 0x10000 then [of_nat c]
      else [of_nat (0xD800 + (c - 0x10000) div 0x400), of_nat (0xDC00 + (c - 0x10000) mod 0x400)])"

definition TextDecoder_decode :: "bytes \<Rightarrow> js_string" where
  "TextDecoder_decode input =
     concat (map utf16_units (strip_BOM (utf8_decoder 0 0 0 0x80 0xBF input)))"

text \<open>
  \<open>new TextEncoder().encode\<close> reads the string as scalar values, a surrogate that is not part
  of a pair becoming U+FFFD, and writes each in UTF-8.
\<close>

definition is_lead :: "16 word \<Rightarrow> bool" where
  "is_lead u = (0xD800 \<le> unat u \<and> unat u \<le> 0xDBFF)"

definition is_trail :: "16 word \<Rightarrow> bool" where
  "is_trail u = (0xDC00 \<le> unat u \<and> unat u \<le> 0xDFFF)"

fun scalar_values :: "js_string \<Rightarrow> nat list" where
  "scalar_values [] = []"
| "scalar_values [u] = (if is_lead u \<or> is_trail u then [0xFFFD] else [unat u])"
| "scalar_values (u # v # rest) =
     (if is_lead u \<and> is_trail v then
        (0x10000 + (unat u - 0xD800) * 0x400 + (unat v - 0xDC00)) # scalar_values rest
      else if is_lead u \<or> is_trail u then 0xFFFD # scalar_values (v # rest)
      else unat u # scalar_values (v # rest))"

definition utf8_encode :: "nat \<Rightarrow> bytes" where
  "utf8_encode c =
     (if c < 0x80 then [of_nat c]
      else if c < 0x800 then [of_nat (0xC0 + c div 64), of_nat (0x80 + c mod 64)]
      else if c < 0x10000 then
        [of_nat (0xE0 + c div 4096), of_nat (0x80 + c div 64 mod 64), of_nat (0x80 + c mod 64)]
      else
        [of_nat (0xF0 + c div 262144), of_nat (0x80 + c div 4096 mod 64),
         of_nat (0x80 + c div 64 mod 64), of_nat (0x80 + c mod 64)])"

definition TextEncoder_encode :: "js_string \<Rightarrow> bytes" where
  "TextEncoder_encode s = concat (map utf8_encode (scalar_values s))"

text \<open>
  \<open>new Uint8Array(buffer, position, length)\<close> throws a RangeError when the window runs past
  the end of the buffer. \<open>String.endsWith\<close> compares code units.
\<close>

definition subarray :: "bytes \<Rightarrow> nat \<Rightarrow> nat \<Rightarrow> error + bytes" where
  "subarray buffer position len =
     (if length buffer < position + len then Inl RangeError
      else Inr (take len (drop position buffer)))"

definition decodeString :: "bytes \<Rightarrow> nat \<Rightarrow> nat \<Rightarrow> error + js_string" where
  "decodeString buffer position len =
     bindE (subarray buffer position len) (\<lambda>childView. Inr (TextDecoder_decode childView))"

definition encodeString :: "js_string \<Rightarrow> bytes" where
  "encodeString s = TextEncoder_encode s"

definition endsWith :: "js_string \<Rightarrow> js_string \<Rightarrow> bool" where
  "endsWith s suffix = (length suffix \<le> length s \<and> drop (length s - length suffix) s = suffix)"

section \<open>The header readers of ZipArchive\<close>

text \<open>The objects returned by \<open>readLocal\<close>, \<open>readCD\<close> and \<open>readEOCDR\<close> (their constant
  \<open>type\<close> tag is left out).\<close>

record LocalHeader =
  signature :: nat
  version :: nat
  flag :: nat
  compression :: nat
  time :: nat
  date :: nat
  crc :: nat
  compressedSize :: nat
  uncompressedSize :: nat
  nameLength :: nat
  fieldLength :: nat
  fileName :: js_string
  field :: bytes
  dataLocation :: nat

record CentralHeader =
  signature :: nat
  version :: nat
  minVersion :: nat
  flag :: nat
  compression :: nat
  time :: nat
  date :: nat
  crc :: nat
  compressedSize :: nat
  uncompressedSize :: nat
  nameLength :: nat
  fieldLength :: nat
  commentLength :: nat
  disk :: nat
  internal :: nat
  external :: nat
  localPosition :: nat
  fileName :: js_string
  field :: bytes
  comment :: js_string
  size_cd :: nat

record EOCDRecord =
  signature :: nat
  disk :: nat
  startDisk :: nat
  diskEntries :: nat
  totalEntries :: nat
  CDLength :: nat
  CDOffset :: nat
  commentLength :: nat
  comment :: js_string

definition readLocal :: "bytes \<Rightarrow> nat \<Rightarrow> error + LocalHeader" where
  "readLocal view position =
     bindE (getUint32 view (int position)) (\<lambda>signature.
     bindE (getUint16 view (int (position + 4))) (\<lambda>version.
     bindE (getUint16 view (int (position + 6))) (\<lambda>flag.
     bindE (getUint16 view (int (position + 8))) (\<lambda>compression.
     bindE (getUint16 view (int (position + 10))) (\<lambda>time.
     bindE (getUint16 view (int (position + 12))) (\<lambda>date.
     bindE (getUint32 view (int (position + 14))) (\<lambda>crc.
     bindE (getUint32 view (int (position + 18))) (\<lambda>compressedSize.
     bindE (getUint32 view (int (position + 22))) (\<lambda>uncompressedSize.
     bindE (getUint16 view (int (position + 26))) (\<lambda>nameLength.
     bindE (getUint16 view (int (position + 28))) (\<lambda>fieldLength.
     bindE (decodeString view (position + 30) nameLength) (\<lambda>fileName.
     bindE (subarray view (position + 30 + nameLength) fieldLength) (\<lambda>field.
     Inr \<lparr>LocalHeader.signature = signature, LocalHeader.version = version,
          LocalHeader.flag = flag, LocalHeader.compression = compression,
          LocalHeader.time = time, LocalHeader.date = date, LocalHeader.crc = crc,
          LocalHeader.compressedSize = compressedSize,
          LocalHeader.uncompressedSize = uncompressedSize,
          LocalHeader.nameLength = nameLength, LocalHeader.fieldLength = fieldLength,
          LocalHeader.fileName = fileName, LocalHeader.field = field,
          dataLocation = position + 30 + nameLength + fieldLength\<rparr>)))))))))))))"

definition readCD :: "bytes \<Rightarrow> nat \<Rightarrow> error + CentralHeader" where
  "readCD view position =
     bindE (getUint32 view (int position)) (\<lambda>signature.
     bindE (getUint16 view (int (position + 4))) (\<lambda>version.
     bindE (getUint16 view (int (position + 6))) (\<lambda>minVersion.
     bindE (getUint16 view (int (position + 8))) (\<lambda>flag.
     bindE (getUint16 view (int (position + 10))) (\<lambda>compression.
     bindE (getUint16 view (int (position + 12))) (\<lambda>time.
     bindE (getUint16 view (int (position + 14))) (\<lambda>date.
     bindE (getUint32 view (int (position + 16))) (\<lambda>crc.
     bindE (getUint32 view (int (position + 20))) (\<lambda>compressedSize.
     bindE (getUint32 view (int (position + 24))) (\<lambda>uncompressedSize.
     bindE (getUint16 view (int (position + 28))) (\<lambda>nameLength.
     bindE (getUint16 view (int (position + 30))) (\<lambda>fieldLength.
     bindE (getUint16 view (int (position + 32))) (\<lambda>commentLength.
     bindE (getUint16 view (int (position + 34))) (\<lambda>disk.
     bindE (getUint16 view (int (position + 36))) (\<lambda>internal.
     bindE (getUint32 view (int (position + 38))) (\<lambda>external.
     bindE (getUint32 view (int (position + 42))) (\<lambda>localPosition.
     bindE (decodeString view (position + 46) nameLength) (\<lambda>fileName.
     bindE (subarray view (position + 46 + nameLength) fieldLength) (\<lambda>field.
     bindE (decodeString view (position + 46 + nameLength + fieldLength) commentLength) (\<lambda>comment.
     Inr \<lparr>CentralHeader.signature = signature, CentralHeader.version = version,
          minVersion = minVersion, CentralHeader.flag = flag,
          CentralHeader.compression = compression, CentralHeader.time = time,
          CentralHeader.date = date, CentralHeader.crc = crc,
          CentralHeader.compressedSize = compressedSize,
          CentralHeader.uncompressedSize = uncompressedSize,
          CentralHeader.nameLength = nameLength, CentralHeader.fieldLength = fieldLength,
          CentralHeader.commentLength = commentLength, CentralHeader.disk = disk,
          internal = internal, external = external, localPosition = localPosition,
          CentralHeader.fileName = fileName, CentralHeader.field = field,
          CentralHeader.comment = comment,
          size_cd = 46 + nameLength + fieldLength + commentLength\<rparr>))))))))))))))))))))"

definition readEOCDR :: "bytes \<Rightarrow> nat \<Rightarrow> error + EOCDRecord" where
  "readEOCDR view position =
     bindE (getUint32 view (int position)) (\<lambda>signature.
     bindE (getUint16 view (int (position + 4))) (\<lambda>disk.
     bindE (getUint16 view (int (position + 6))) (\<lambda>startDisk.
     bindE (getUint16 view (int (position + 8))) (\<lambda>diskEntries.
     bindE (getUint16 view (int (position + 10))) (\<lambda>totalEntries.
     bindE (getUint32 view (int (position + 12))) (\<lambda>CDLength.
     bindE (getUint32 view (int (position + 16))) (\<lambda>CDOffset.
     bindE (getUint16 view (int (position + 20))) (\<lambda>commentLength.
     bindE (decodeString view (position + 22) commentLength) (\<lambda>comment.
     Inr \<lparr>EOCDRecord.signature = signature, EOCDRecord.disk = disk, startDisk = startDisk,
          diskEntries = diskEntries, totalEntries = totalEntries, CDLength = CDLength,
          CDOffset = CDOffset, EOCDRecord.commentLength = commentLength,
          EOCDRecord.comment = comment\<rparr>)))))))))"


section \<open>The archive of part_000: class ZipEntry and the index of ZipArchive\<close>

text \<open>
  The \<open>ZipEntry\<close> class that stands beside \<open>ZipArchive\<close> in part_000 holds a Blob and a flag.
  It is the record \<open>ArchiveEntry\<close> here, the name \<open>ZipEntry\<close> being kept for the class of
  src/ZipEntry.ts. The functions of part_000 observe only the content of a Blob, so there the
  Blob is its bytes. \<open>Blob.slice(start, end)\<close> clamps both ends to the size of the Blob and
  never throws.
\<close>

record ArchiveEntry =
  blob :: bytes
  compressed :: bool

definition slice :: "bytes \<Rightarrow> nat \<Rightarrow> nat \<Rightarrow> bytes" where
  "slice b start end = take (end - start) (drop start b)"

text \<open>
  \<open>entries\<close> is a JavaScript \<open>Map\<close>: it iterates in insertion order, and \<open>Map.set\<close> on a key
  that is present replaces the value where it stands. The method \<open>set\<close> is \<open>set_file\<close> here.
\<close>

record ZipArchive =
  entries :: "(js_string \<times> ArchiveEntry) list"

fun Map_set :: "('k \<times> 'v) list \<Rightarrow> 'k \<Rightarrow> 'v \<Rightarrow> ('k \<times> 'v) list" where
  "Map_set [] k v = [(k, v)]"
| "Map_set ((k', v') # m) k v = (if k' = k then (k, v) # m else (k', v') # Map_set m k v)"

definition verifyPath :: "js_string \<Rightarrow> unit" where
  "verifyPath name = ()"

text \<open>\<open>has\<close> has no \<open>return\<close> statement: its value is \<open>undefined\<close> whatever the index holds.\<close>

datatype js_value = Undefined | Boolean bool

definition has :: "ZipArchive \<Rightarrow> js_string \<Rightarrow> js_value" where
  "has archive name = (let _ = verifyPath name in Undefined)"

definition get :: "ZipArchive \<Rightarrow> js_string \<Rightarrow> ArchiveEntry option" where
  "get archive name = (let _ = verifyPath name in map_of (entries archive) name)"

definition set_file :: "ZipArchive \<Rightarrow> js_string \<Rightarrow> bytes \<Rightarrow> ZipArchive" where
  "set_file archive name file =
     (let _ = verifyPath name
      in archive\<lparr>entries := Map_set (entries archive) name \<lparr>blob = file, compressed = False\<rparr>\<rparr>)"

definition setCompressed :: "ZipArchive \<Rightarrow> js_string \<Rightarrow> bytes \<Rightarrow> ZipArchive" where
  "setCompressed archive name file =
     archive\<lparr>entries := Map_set (entries archive) name \<lparr>blob = file, compressed = True\<rparr>\<rparr>"

section \<open>ZipArchive.fromBlob\<close>

text \<open>
  \<open>buffer\<close> is the content of the Blob that \<open>fromBlob\<close> receives: the DataView reads it and
  \<open>blob.slice\<close> cuts the entries' backing bytes out of it. In the loop, \<open>len\<close> is the source's
  \<open>length\<close> (\<open>EOCDR.CDLength\<close>) and \<open>size_cd\<close> the field \<open>size\<close> of a decoded record.

  The body of the \<open>while (position < length)\<close> loop, for a record whose signature is
  \<open>HEADER_CD\<close>: a name ending in \<open>/\<close> is a folder and adds nothing; otherwise the Local header
  at \<open>entry.localPosition\<close> is read and the archive gets an entry under \<open>local.fileName\<close>.
\<close>

definition addEntry :: "bytes \<Rightarrow> CentralHeader \<Rightarrow> ZipArchive \<Rightarrow> error + ZipArchive" where
  "addEntry view entry archive =
     (if endsWith (CentralHeader.fileName entry) (str ''/'') then Inr archive
      else bindE (readLocal view (localPosition entry)) (\<lambda>local.
        let subblob = slice view (dataLocation local)
                        (dataLocation local + LocalHeader.compressedSize local);
            isCompressed = (LocalHeader.compression local = 8)
        in if isCompressed then Inr (setCompressed archive (LocalHeader.fileName local) subblob)
           else Inr (set_file archive (LocalHeader.fileName local) subblob)))"

function fromBlob_loop :: "bytes \<Rightarrow> nat \<Rightarrow> nat \<Rightarrow> nat \<Rightarrow> ZipArchive \<Rightarrow> error + ZipArchive" where
  "fromBlob_loop view offset len position archive =
     (if position < len then
        (case getUint32 view (int (position + offset)) of
           Inl e \<Rightarrow> Inl e
         | Inr SIG \<Rightarrow>
             if SIG = HEADER_CD then
               (case readCD view (position + offset) of
                  Inl e \<Rightarrow> Inl e
                | Inr entry \<Rightarrow>
                    (case addEntry view entry archive of
                       Inl e \<Rightarrow> Inl e
                     | Inr archive' \<Rightarrow>
                         fromBlob_loop view offset len (position + size_cd entry) archive'))
             else Inl (Error ''UNKNOWN''))
      else Inr archive)"
  by pat_completeness auto
termination
  by (relation "measure (\<lambda>(view, offset, len, position, archive). len - position)")
     (auto simp: readCD_def bindE_def split: sum.splits)

declare fromBlob_loop.simps [simp del]

definition fromBlob :: "bytes \<Rightarrow> error + ZipArchive" where
  "fromBlob buffer =
     bindE (findEOCDR buffer) (\<lambda>EOCDRPosition.
     bindE (readEOCDR buffer EOCDRPosition) (\<lambda>EOCDR.
     fromBlob_loop buffer (CDOffset EOCDR) (CDLength EOCDR) 0 \<lparr>entries = []\<rparr>))"


section \<open>The DataView and Uint8Array writers\<close>

text \<open>
  \<open>Uint8Array.set(array, offset)\<close> and \<open>DataView.setUint16/32(offset, value, true)\<close> throw a
  RangeError when the bytes do not fit; the value is reduced modulo \<open>2^16\<close> or \<open>2^32\<close> and
  stored low byte first. \<open>new ArrayBuffer(length)\<close> is filled with zeros.
\<close>

definition Uint8Array_set :: "bytes \<Rightarrow> bytes \<Rightarrow> nat \<Rightarrow> error + bytes" where
  "Uint8Array_set target array offset =
     (if length target < offset + length array then Inl RangeError
      else Inr (take offset target @ array @ drop (offset + length array) target))"

definition setUint16 :: "bytes \<Rightarrow> nat \<Rightarrow> int \<Rightarrow> error + bytes" where
  "setUint16 view byteOffset v =
     Uint8Array_set view [word_of_int v, word_of_int (v div 256)] byteOffset"

definition setUint32 :: "bytes \<Rightarrow> nat \<Rightarrow> int \<Rightarrow> error + bytes" where
  "setUint32 view byteOffset v =
     Uint8Array_set view
       [word_of_int v, word_of_int (v div 256), word_of_int (v div 65536),
        word_of_int (v div 16777216)] byteOffset"

definition ArrayBuffer :: "nat \<Rightarrow> bytes" where
  "ArrayBuffer len = replicate len 0"

text \<open>An identifier that no scope of the file declares: evaluating it throws a ReferenceError.\<close>

definition undeclared :: "string \<Rightarrow> error + 'a" where
  "undeclared name = Inl (ReferenceError name)"

section \<open>The header writers of part_000\<close>

definition getBackingObject :: "ArchiveEntry \<Rightarrow> bytes" where
  "getBackingObject entry = blob entry"

definition generateLocalHeader :: "ArchiveEntry \<Rightarrow> js_string \<Rightarrow> bytes option \<Rightarrow> error + bytes" where
  "generateLocalHeader entry filename extra =
     (let encodedFilename = encodeString filename;
          len = 30 + length encodedFilename + (case extra of Some x \<Rightarrow> length x | None \<Rightarrow> 0);
          buffer = ArrayBuffer len
      in bindE (setUint32 buffer 0 (int HEADER_LOCAL)) (\<lambda>b.
         bindE (setUint16 b 4 0) (\<lambda>b.
         bindE (setUint16 b 6 0) (\<lambda>b.
         bindE (setUint16 b 8 (if compressed entry then 8 else 0)) (\<lambda>b.
         bindE (setUint16 b 10 0) (\<lambda>b.
         bindE (setUint16 b 12 0) (\<lambda>b.
         bindE (setUint32 b 14 0) (\<lambda>b.
         bindE (setUint32 b 18 0) (\<lambda>b.
         bindE (setUint32 b 22 0) (\<lambda>b.
         bindE (setUint16 b 26 (int (length encodedFilename))) (\<lambda>b.
         bindE (setUint16 b 28 (case extra of Some x \<Rightarrow> int (length x) | None \<Rightarrow> 0)) (\<lambda>b.
         bindE (Uint8Array_set b encodedFilename 30) (\<lambda>b.
         (case extra of
            Some x \<Rightarrow> Uint8Array_set b x (30 + length encodedFilename)
          | None \<Rightarrow> Inr b))))))))))))))"

text \<open>
  \<open>generateCentralHeader\<close> allocates \<open>30 + n + m + k\<close> bytes and then writes the 46-byte prefix
  and the name at offset 46. Its local-position field is written from \<open>localPosition\<close>, which
  is declared nowhere (the caller's \<open>location\<close> is not passed in). \<open>fileComment\<close> is the
  parameter \<open>comment\<close>; an empty comment string is falsy and is not encoded.
\<close>

definition generateCentralHeader ::
  "ArchiveEntry \<Rightarrow> js_string \<Rightarrow> bytes option \<Rightarrow> js_string option \<Rightarrow> error + bytes" where
  "generateCentralHeader entry filename extra fileComment =
     (let encodedFilename = encodeString filename;
          encodedComment = (case fileComment of
                              Some c \<Rightarrow> if c = [] then None else Some (encodeString c)
                            | None \<Rightarrow> None);
          len = 30 + length encodedFilename + (case extra of Some x \<Rightarrow> length x | None \<Rightarrow> 0)
                  + (case encodedComment of Some c \<Rightarrow> length c | None \<Rightarrow> 0);
          buffer = ArrayBuffer len
      in bindE (setUint32 buffer 0 (int HEADER_CD)) (\<lambda>b.
         bindE (setUint16 b 4 0) (\<lambda>b.
         bindE (setUint16 b 6 0) (\<lambda>b.
         bindE (setUint16 b 8 0) (\<lambda>b.
         bindE (setUint16 b 10 (if compressed entry then 8 else 0)) (\<lambda>b.
         bindE (setUint16 b 12 0) (\<lambda>b.
         bindE (setUint16 b 14 0) (\<lambda>b.
         bindE (setUint32 b 16 0) (\<lambda>b.
         bindE (setUint32 b 20 0) (\<lambda>b.
         bindE (setUint32 b 24 0) (\<lambda>b.
         bindE (setUint16 b 28 (int (length encodedFilename))) (\<lambda>b.
         bindE (setUint16 b 30 (case extra of Some x \<Rightarrow> int (length x) | None \<Rightarrow> 0)) (\<lambda>b.
         bindE (setUint16 b 32 (case encodedComment of Some c \<Rightarrow> int (length c) | None \<Rightarrow> 0)) (\<lambda>b.
         bindE (setUint16 b 34 0) (\<lambda>b.
         bindE (setUint16 b 36 0) (\<lambda>b.
         bindE (setUint32 b 38 0) (\<lambda>b.
         bindE (undeclared ''localPosition'') (\<lambda>localPosition.
         bindE (setUint32 b 42 localPosition) (\<lambda>b.
         bindE (Uint8Array_set b encodedFilename 46) (\<lambda>b.
         bindE (case extra of
                  Some x \<Rightarrow> Uint8Array_set b x (46 + length encodedFilename)
                | None \<Rightarrow> Inr b) (\<lambda>b.
         (case encodedComment of
            Some c \<Rightarrow> Uint8Array_set b c
                        (46 + length encodedFilename
                           + (case extra of Some x \<Rightarrow> length x | None \<Rightarrow> 0))
          | None \<Rightarrow> Inr b))))))))))))))))))))))"

text \<open>
  \<open>generateEOCDR\<close> is a copy of the body of \<open>readEOCDR\<close>: it starts from \<open>position\<close> and
  reads through \<open>view\<close>, neither of which is declared, writes no byte and returns nothing.
  Its parameters (\<open>cdOffset\<close> for \<open>CDOffset\<close>, and \<open>records\<close>) are not used.
\<close>

definition generateEOCDR :: "nat \<Rightarrow> nat \<Rightarrow> error + unit" where
  "generateEOCDR cdOffset records =
     bindE (undeclared ''position'') (\<lambda>position.
     bindE (undeclared ''view'') (\<lambda>view.
     bindE (getUint32 view (int position)) (\<lambda>signature.
     bindE (getUint16 view (int (position + 4))) (\<lambda>disk.
     bindE (getUint16 view (int (position + 6))) (\<lambda>startDisk.
     bindE (getUint16 view (int (position + 8))) (\<lambda>diskEntries.
     bindE (getUint16 view (int (position + 10))) (\<lambda>totalEntries.
     bindE (getUint32 view (int (position + 12))) (\<lambda>CDLength.
     bindE (getUint32 view (int (position + 16))) (\<lambda>CDOffset.
     bindE (getUint16 view (int (position + 20))) (\<lambda>commentLength.
     bindE (decodeString view (position + 22) commentLength) (\<lambda>comment.
     Inr ())))))))))))"

section \<open>ZipArchive.toBlob\<close>

text \<open>
  The \<open>for\<close> loop over the entries, in insertion order: \<open>parts\<close> collects the Local headers and
  the backing bytes, \<open>directories\<close> the Central Directory records. \<open>location\<close> is computed and
  not used.
\<close>

fun toBlob_entries ::
  "(js_string \<times> ArchiveEntry) list \<Rightarrow> nat \<Rightarrow> bytes list \<Rightarrow> bytes list
     \<Rightarrow> error + (nat \<times> bytes list \<times> bytes list)" where
  "toBlob_entries [] offset parts directories = Inr (offset, parts, directories)"
| "toBlob_entries ((name, entry) # rest) offset parts directories =
     (let location = offset
      in case generateLocalHeader entry name None of
           Inl e \<Rightarrow> Inl e
         | Inr local \<Rightarrow>
             (let file = getBackingObject entry
              in case generateCentralHeader entry name None None of
                   Inl e \<Rightarrow> Inl e
                 | Inr cd \<Rightarrow>
                     toBlob_entries rest (offset + (length local + length file))
                       (parts @ [local, file]) (directories @ [cd])))"

text \<open>The value of \<open>generateEOCDR\<close> is bound to \<open>EOCDR\<close> and never added to \<open>parts\<close>.\<close>

definition toBlob :: "ZipArchive \<Rightarrow> error + bytes" where
  "toBlob archive =
     bindE (toBlob_entries (entries archive) 0 [] []) (\<lambda>(offset, parts, directories).
       let CDOffset = offset;
           parts' = parts @ directories
       in bindE (generateEOCDR CDOffset (length directories)) (\<lambda>EOCDR.
            Inr (concat parts')))"


section \<open>src/ZipEntry.ts\<close>

text \<open>
  \<open>inflated_entries\<close> is a WeakMap keyed by the Blob object, so here a Blob carries the identity
  of the object beside its content.
\<close>

record Blob =
  ident :: nat
  content :: bytes

record Date =
  year :: int
  month :: int
  day :: int
  hours :: int
  minutes :: int
  seconds :: int

record ZipEntry =
  blob :: Blob
  extra :: "bytes option"
  comment :: "bytes option"
  internal_file_attr :: int
  external_file_attr :: int
  modified :: Date
  crc :: int
  uncompressed_size :: int
  compression :: int

definition ZIP_VERSION :: int where "ZIP_VERSION = 20"

text \<open>
  Modelled from the spec: \<open>dos_time_from_date\<close> (./dos_time.js) is not among the sources. The
  DOS date packs \<open>(year - 1980) << 9 | month << 5 | day\<close>, the DOS time packs
  \<open>hour << 11 | minute << 5 | second / 2\<close>, rounded down; the pair is \<open>[date, time]\<close>.
\<close>

definition dos_time_from_date :: "Date \<Rightarrow> int \<times> int" where
  "dos_time_from_date d =
     (push_bit 9 (year d - 1980) OR push_bit 5 (month d) OR day d,
      push_bit 11 (hours d) OR push_bit 5 (minutes d) OR (seconds d div 2))"

text \<open>
  Modelled from the spec: \<open>encode_utf8_string\<close> (./string.js) is not among the sources.
  Filenames are UTF-8; it is \<open>encodeString\<close>.
\<close>

definition encode_utf8_string :: "js_string \<Rightarrow> bytes" where
  "encode_utf8_string = encodeString"

text \<open>
  Modelled from the spec: \<open>assert\<close> (./assert.js) is not among the sources. The spec names the
  failure of \<open>get_blob\<close> on a compression code it cannot serve; \<open>assert(condition, message)\<close>
  throws an Error carrying the message when the condition is false and does nothing otherwise.
\<close>

definition assert :: "bool \<Rightarrow> string \<Rightarrow> error + unit" where
  "assert condition message = (if condition then Inr () else Inl (Error message))"

definition is_compressed :: "ZipEntry \<Rightarrow> bool" where
  "is_compressed e = (compression e \<noteq> 0)"

definition compressed_size :: "ZipEntry \<Rightarrow> int" where
  "compressed_size e = int (length (content (blob e)))"

definition get_backing_object :: "ZipEntry \<Rightarrow> Blob" where
  "get_backing_object e = blob e"

definition generate_local :: "ZipEntry \<Rightarrow> js_string \<Rightarrow> error + bytes" where
  "generate_local e filename =
     (let encoded_filename = encode_utf8_string filename;
          N = length encoded_filename;
          M = (case extra e of Some x \<Rightarrow> length x | None \<Rightarrow> 0);
          buffer = ArrayBuffer (30 + N + M);
          (date, time) = dos_time_from_date (modified e)
      in bindE (setUint32 buffer 0 (int HEADER_LOCAL)) (\<lambda>b.
         bindE (setUint16 b 4 ZIP_VERSION) (\<lambda>b.
         bindE (setUint16 b 6 0) (\<lambda>b.
         bindE (setUint16 b 8 (compression e)) (\<lambda>b.
         bindE (setUint16 b 10 time) (\<lambda>b.
         bindE (setUint16 b 12 date) (\<lambda>b.
         bindE (setUint32 b 16 (crc e)) (\<lambda>b.
         bindE (setUint32 b 20 (compressed_size e)) (\<lambda>b.
         bindE (setUint32 b 24 (uncompressed_size e)) (\<lambda>b.
         bindE (setUint16 b 26 (int (length encoded_filename))) (\<lambda>b.
         bindE (setUint16 b 28 (int M)) (\<lambda>b.
         bindE (Uint8Array_set b encoded_filename 30) (\<lambda>b.
         (case extra e of
            Some x \<Rightarrow> Uint8Array_set b x (30 + N)
          | None \<Rightarrow> Inr b))))))))))))))"

definition generate_cd :: "ZipEntry \<Rightarrow> js_string \<Rightarrow> int \<Rightarrow> error + bytes" where
  "generate_cd e filename local_position =
     (let encoded_filename = encode_utf8_string filename;
          N = length encoded_filename;
          M = (case extra e of Some x \<Rightarrow> length x | None \<Rightarrow> 0);
          K = (case comment e of Some c \<Rightarrow> length c | None \<Rightarrow> 0);
          buffer = ArrayBuffer (46 + M + N + K);
          (date, time) = dos_time_from_date (modified e)
      in bindE (setUint32 buffer 0 (int HEADER_CD)) (\<lambda>b.
         bindE (setUint16 b 4 ZIP_VERSION) (\<lambda>b.
         bindE (setUint16 b 6 ZIP_VERSION) (\<lambda>b.
         bindE (setUint16 b 8 0) (\<lambda>b.
         bindE (setUint16 b 10 (compression e)) (\<lambda>b.
         bindE (setUint16 b 12 time) (\<lambda>b.
         bindE (setUint16 b 14 date) (\<lambda>b.
         bindE (setUint32 b 16 (crc e)) (\<lambda>b.
         bindE (setUint32 b 20 (compressed_size e)) (\<lambda>b.
         bindE (setUint32 b 24 (uncompressed_size e)) (\<lambda>b.
         bindE (setUint16 b 28 (int (length encoded_filename))) (\<lambda>b.
         bindE (setUint16 b 30 (int M)) (\<lambda>b.
         bindE (setUint16 b 32 (int K)) (\<lambda>b.
         bindE (setUint16 b 34 0) (\<lambda>b.
         bindE (setUint16 b 36 (internal_file_attr e AND 0xFFFF)) (\<lambda>b.
         bindE (setUint32 b 38 (external_file_attr e AND 0xFFFFFFFF)) (\<lambda>b.
         bindE (setUint32 b 42 local_position) (\<lambda>b.
         bindE (Uint8Array_set b encoded_filename 46) (\<lambda>b.
         bindE (case extra e of
                  Some x \<Rightarrow> Uint8Array_set b x (46 + N)
                | None \<Rightarrow> Inr b) (\<lambda>b.
         (case comment e of
            Some c \<Rightarrow> Uint8Array_set b c (46 + N + M)
          | None \<Rightarrow> Inr b)))))))))))))))))))))"

subsection \<open>The decompression cache and get_blob\<close>

text \<open>
  The state the methods share is the WeakMap \<open>inflated_entries\<close>, keyed by the identity of the
  backing Blob. \<open>decompress_calls\<close> counts the invocations of the external \<open>decompress\<close> of
  ./compression.js, which is a parameter \<open>decompress :: Blob \<Rightarrow> error + Blob\<close> of the model
  (\<open>Inl\<close> when its promise rejects).
\<close>

record cache_state =
  inflated_entries :: "nat \<rightharpoonup> Blob"
  decompress_calls :: nat

text \<open>
  An asynchronous call runs up to its first \<open>await\<close> when it is issued and the rest when the
  awaited promise has settled. \<open>Awaiting r\<close> is a call suspended at
  \<open>await decompress(this.blob)\<close> whose promise settles with \<open>r\<close>; \<open>Settled r\<close> is a call that
  has finished with \<open>r\<close>.
\<close>

datatype pending = Awaiting "error + Blob" | Settled "error + Blob"

definition decompress_issue ::
  "(Blob \<Rightarrow> error + Blob) \<Rightarrow> ZipEntry \<Rightarrow> cache_state \<Rightarrow> pending \<times> cache_state" where
  "decompress_issue decompress e s =
     (case inflated_entries s (ident (blob e)) of
        Some existing \<Rightarrow> (Settled (Inr existing), s)
      | None \<Rightarrow> (Awaiting (decompress (blob e)), s\<lparr>decompress_calls := decompress_calls s + 1\<rparr>))"

definition decompress_resume ::
  "ZipEntry \<Rightarrow> error + Blob \<Rightarrow> cache_state \<Rightarrow> (error + Blob) \<times> cache_state" where
  "decompress_resume e r s =
     (case r of
        Inl err \<Rightarrow> (Inl err, s)
      | Inr result \<Rightarrow>
          (Inr result, s\<lparr>inflated_entries := (inflated_entries s)(ident (blob e) \<mapsto> result)\<rparr>))"

definition get_blob_issue ::
  "(Blob \<Rightarrow> error + Blob) \<Rightarrow> ZipEntry \<Rightarrow> cache_state \<Rightarrow> pending \<times> cache_state" where
  "get_blob_issue decompress e s =
     (if compression e = 8 then decompress_issue decompress e s
      else (case assert (compression e \<noteq> 0) ''Incompatible compression type'' of
              Inl err \<Rightarrow> (Settled (Inl err), s)
            | Inr _ \<Rightarrow> (Settled (Inr (blob e)), s)))"

definition get_blob_resume ::
  "ZipEntry \<Rightarrow> pending \<Rightarrow> cache_state \<Rightarrow> (error + Blob) \<times> cache_state" where
  "get_blob_resume e p s =
     (case p of
        Awaiting r \<Rightarrow> decompress_resume e r s
      | Settled r \<Rightarrow> (r, s))"

text \<open>\<open>await entry.get_blob()\<close> with no other call in between: the two halves in a row.\<close>

definition get_blob ::
  "(Blob \<Rightarrow> error + Blob) \<Rightarrow> ZipEntry \<Rightarrow> cache_state \<Rightarrow> (error + Blob) \<times> cache_state" where
  "get_blob decompress e s =
     (let (p, s') = get_blob_issue decompress e s in get_blob_resume e p s')"

text \<open>
  Several calls of \<open>get_blob\<close> on one entry: slot \<open>i\<close> holds \<open>None\<close> until call \<open>i\<close> is issued.
  A schedule lists, in order, which call the event loop runs next; running a call that is not
  yet issued issues it, running a suspended call resumes it.
\<close>

definition run_call ::
  "(Blob \<Rightarrow> error + Blob) \<Rightarrow> ZipEntry \<Rightarrow> nat \<Rightarrow> pending option list \<times> cache_state
     \<Rightarrow> pending option list \<times> cache_state" where
  "run_call decompress e i cfg =
     (let (calls, s) = cfg
      in if i < length calls then
           (case calls ! i of
              None \<Rightarrow>
                (let (p, s') = get_blob_issue decompress e s in (calls[i := Some p], s'))
            | Some p \<Rightarrow>
                (let (r, s') = get_blob_resume e p s in (calls[i := Some (Settled r)], s')))
         else cfg)"

definition run_schedule ::
  "(Blob \<Rightarrow> error + Blob) \<Rightarrow> ZipEntry \<Rightarrow> nat list \<Rightarrow> pending option list \<times> cache_state
     \<Rightarrow> pending option list \<times> cache_state" where
  "run_schedule decompress e schedule cfg = fold (run_call decompress e) schedule cfg"

text \<open>\<open>n\<close> calls issued together before any is resumed, and \<open>n\<close> calls each awaited before
  the next is issued.\<close>

definition concurrent_calls :: "nat \<Rightarrow> nat list" where
  "concurrent_calls n = [0..<n] @ [0..<n]"

definition sequential_calls :: "nat \<Rightarrow> nat list" where
  "sequential_calls n = concat (map (\<lambda>i. [i, i]) [0..<n])"

section \<open>Definitions used to state the properties\<close>

subsection \<open>Scanning for the EOCDR signature\<close>

text \<open>
  \<open>magic_at view p\<close>: the four bytes at \<open>p\<close> are in range and read, little-endian, as the EOCDR
  signature. \<open>scan_back view n\<close> tests the candidate positions \<open>n - 1\<close> down to \<open>0\<close> and gives
  the first match, \<open>None\<close> when there is none.
\<close>

definition magic_at :: "bytes \<Rightarrow> nat \<Rightarrow> bool" where
  "magic_at view p = (getUint32 view (int p) = Inr HEADER_EOCDR)"

fun scan_back :: "bytes \<Rightarrow> nat \<Rightarrow> nat option" where
  "scan_back view 0 = None"
| "scan_back view (Suc n) = (if magic_at view n then Some n else scan_back view n)"

text \<open>
  The specification's \<open>find_eocdr\<close>: the candidates are \<open>buffer.length - 22\<close> down to \<open>0\<close>, and
  \<open>None\<close> stands for its \<open>FormatError("no EOCDR")\<close>.
\<close>

definition find_eocdr_spec :: "bytes \<Rightarrow> nat option" where
  "find_eocdr_spec buffer = scan_back buffer (length buffer - 21)"

text \<open>Twenty-two bytes whose only EOCDR signature stands at position 8.\<close>

definition c8_buffer :: bytes where
  "c8_buffer = [0, 0, 0, 0, 0, 0, 0, 0, 0x50, 0x4b, 0x05, 0x06, 0, 0, 0, 0, 0, 0, 0, 0, 0, 0]"

subsection \<open>Example inputs\<close>

text \<open>A STORE entry for the two bytes of "hi", with their CRC-32, last modified on
  2020-01-02 at 03:04:06.\<close>

definition c5_entry :: ZipEntry where
  "c5_entry =
     \<lparr>blob = \<lparr>ident = 0, content = [0x68, 0x69]\<rparr>, extra = None, comment = None,
      internal_file_attr = 0, external_file_attr = 0,
      modified = \<lparr>year = 2020, month = 1, day = 2, hours = 3, minutes = 4, seconds = 6\<rparr>,
      crc = 0xD8932AAC, uncompressed_size = 2, compression = 0\<rparr>"

text \<open>
  A ZIP file written by a streaming writer, holding the one file \<open>a\<close> with content "hi": the
  Local header at 0 has bit 3 of the flag set and CRC and sizes 0, the data is at 31, a data
  descriptor follows at 33, the Central Directory record is at 49 and the EOCDR at 96.
\<close>

definition c6_buffer :: bytes where
  "c6_buffer =
     [80, 75, 3, 4, 20, 0, 8, 0, 0, 0, 131, 24, 34, 80, 0, 0, 0, 0, 0, 0, 0, 0, 0, 0, 0,
      0, 1, 0, 0, 0, 97, 104, 105, 80, 75, 7, 8, 172, 42, 147, 216, 2, 0, 0, 0, 2, 0, 0,
      0, 80, 75, 1, 2, 20, 0, 20, 0, 8, 0, 0, 0, 131, 24, 34, 80, 172, 42, 147, 216, 2,
      0, 0, 0, 2, 0, 0, 0, 1, 0, 0, 0, 0, 0, 0, 0, 0, 0, 0, 0, 128, 1, 0, 0, 0, 0, 97,
      80, 75, 5, 6, 0, 0, 0, 0, 1, 0, 1, 0, 47, 0, 0, 0, 49, 0, 0, 0, 0, 0]"


text \<open>A DEFLATE entry, a decompression collaborator that succeeds, and the state before any
  call.\<close>

definition c7_entry :: ZipEntry where
  "c7_entry =
     \<lparr>blob = \<lparr>ident = 0, content = [0xCB, 0xC8, 0x04, 0x00]\<rparr>, extra = None, comment = None,
      internal_file_attr = 0, external_file_attr = 0,
      modified = \<lparr>year = 2020, month = 1, day = 2, hours = 3, minutes = 4, seconds = 6\<rparr>,
      crc = 0xD8932AAC, uncompressed_size = 2, compression = 8\<rparr>"

definition c7_decompress :: "Blob \<Rightarrow> error + Blob" where
  "c7_decompress b = Inr \<lparr>ident = Suc (ident b), content = [0x68, 0x69]\<rparr>"

definition empty_cache :: cache_state where
  "empty_cache = \<lparr>inflated_entries = Map.empty, decompress_calls = 0\<rparr>"


subsection \<open>The walk of the Central Directory and where the entries come from\<close>

text \<open>
  \<open>cd_region view offset len position records\<close>: walking from \<open>position\<close>, relative to \<open>offset\<close>,
  every record read before \<open>len\<close> bytes are consumed decodes and bears the Central Directory
  signature; \<open>records\<close> lists them in the order of the walk.
\<close>

inductive cd_region :: "bytes \<Rightarrow> nat \<Rightarrow> nat \<Rightarrow> nat \<Rightarrow> CentralHeader list \<Rightarrow> bool" where
  region_end: "len \<le> position \<Longrightarrow> cd_region view offset len position []"
| region_record:
    "position < len \<Longrightarrow> readCD view (position + offset) = Inr entry \<Longrightarrow>
     CentralHeader.signature entry = HEADER_CD \<Longrightarrow>
     cd_region view offset len (position + size_cd entry) rest \<Longrightarrow>
     cd_region view offset len position (entry # rest)"

text \<open>
  \<open>entry_of_record buffer cd name e\<close>: the record \<open>cd\<close> is not a folder, and the Local header
  at its \<open>localPosition\<close> has the filename \<open>name\<close>, a compression method that decides the flag
  of \<open>e\<close>, and a data offset and compressed size that delimit the backing bytes of \<open>e\<close>.
\<close>

definition entry_of_record :: "bytes \<Rightarrow> CentralHeader \<Rightarrow> js_string \<Rightarrow> ArchiveEntry \<Rightarrow> bool" where
  "entry_of_record buffer cd name e \<longleftrightarrow>
     \<not> endsWith (CentralHeader.fileName cd) (str ''/'')
     \<and> (\<exists>local.
          readLocal buffer (localPosition cd) = Inr local
          \<and> name = LocalHeader.fileName local
          \<and> compressed e = (LocalHeader.compression local = 8)
          \<and> ArchiveEntry.blob e =
              slice buffer (dataLocation local)
                (dataLocation local + LocalHeader.compressedSize local))"

text \<open>
  \<open>taken_from_local buffer name e\<close>: \<open>e\<close> is the entry of a record of the region that
  \<open>fromBlob\<close> walks, which is the region that the EOCDR found by \<open>findEOCDR\<close> declares with
  its \<open>CDOffset\<close> and \<open>CDLength\<close>.
\<close>

definition taken_from_local :: "bytes \<Rightarrow> js_string \<Rightarrow> ArchiveEntry \<Rightarrow> bool" where
  "taken_from_local buffer name e \<longleftrightarrow>
     (\<exists>p E records cd.
        findEOCDR buffer = Inr p \<and> readEOCDR buffer p = Inr E
        \<and> cd_region buffer (CDOffset E) (CDLength E) 0 records
        \<and> cd \<in> set records
        \<and> entry_of_record buffer cd name e)"

subsection \<open>The outcome of calls in sequence\<close>

text \<open>
  \<open>observed e result s\<close> is the Blob a caller gets for entry \<open>e\<close> from state \<open>s\<close> when the
  collaborator would give \<open>result\<close>: the cached one if there is one. \<open>after_first e result s\<close> is
  the state after the call: unchanged on a hit; on a miss one more invocation and a new cache
  entry.
\<close>

definition after_first :: "ZipEntry \<Rightarrow> Blob \<Rightarrow> cache_state \<Rightarrow> cache_state" where
  "after_first e result s =
     (case inflated_entries s (ident (blob e)) of
        Some existing \<Rightarrow> s
      | None \<Rightarrow> s\<lparr>decompress_calls := decompress_calls s + 1,
                   inflated_entries := (inflated_entries s)(ident (blob e) \<mapsto> result)\<rparr>)"

definition observed :: "ZipEntry \<Rightarrow> Blob \<Rightarrow> cache_state \<Rightarrow> Blob" where
  "observed e result s =
     (case inflated_entries s (ident (blob e)) of Some existing \<Rightarrow> existing | None \<Rightarrow> result)"


section \<open>Evaluation\<close>

lemma replicate_numeral: "replicate (numeral k) x = x # replicate (pred_numeral k) x"
  by (simp add: numeral_eq_Suc)

lemmas string_defs = str_def TextDecoder_decode_def strip_BOM_def utf16_units_def
  TextEncoder_encode_def utf8_encode_def is_lead_def is_trail_def encodeString_def

lemmas read_defs = getUint32_def getUint16_def getUint_def bindE_def readLocal_def readCD_def
  readEOCDR_def decodeString_def subarray_def string_defs HEADER_EOCDR_def HEADER_CD_def
  HEADER_LOCAL_def

lemmas write_defs = encode_utf8_string_def string_defs ArrayBuffer_def
  setUint32_def setUint16_def Uint8Array_set_def bindE_def HEADER_LOCAL_def HEADER_CD_def
  replicate_numeral

lemmas archive_defs = set_file_def setCompressed_def verifyPath_def getBackingObject_def

section \<open>Decoding and encoding names\<close>

text \<open>An ill-formed byte decodes to U+FFFD, a leading byte order mark is dropped, and a lone
  surrogate is encoded as U+FFFD.\<close>

lemma decodeString_ill_formed: "decodeString [0xFF] 0 1 = Inr [0xFFFD]"
  by (simp add: decodeString_def subarray_def bindE_def string_defs)

lemma decodeString_leading_BOM: "decodeString [0xEF, 0xBB, 0xBF, 0x61] 0 4 = Inr (str ''a'')"
  by (simp add: decodeString_def subarray_def bindE_def string_defs)

lemma encodeString_lone_surrogate: "encodeString [0xD800] = [0xEF, 0xBF, 0xBD]"
  by (simp add: string_defs)

section \<open>findEOCDR\<close>

lemma scan_back_Some_iff:
  "scan_back view n = Some p \<longleftrightarrow>
     p < n \<and> magic_at view p \<and> (\<forall>q. p < q \<and> q < n \<longrightarrow> \<not> magic_at view q)"
proof (induction n)
  case 0
  then show ?case by simp
next
  case (Suc n)
  show ?case
  proof (cases "magic_at view n")
    case True
    then show ?thesis
      by (auto simp: less_Suc_eq dest: spec [of _ n])
  next
    case False
    then show ?thesis
      using Suc by (auto simp: less_Suc_eq)
  qed
qed

lemma scan_back_None_iff:
  "scan_back view n = None \<longleftrightarrow> (\<forall>q<n. \<not> magic_at view q)"
  by (induction n) (auto simp: less_Suc_eq)

lemma findEOCDR_loop_scan:
  "n + 4 \<le> length view \<Longrightarrow>
   findEOCDR_loop view (int n) =
     (case scan_back view n of
        None \<Rightarrow> Inl (Error ''No end of central directory record found'')
      | Some p \<Rightarrow> Inr p)"
proof (induction n)
  case 0
  then show ?case by (simp add: findEOCDR_loop.simps)
next
  case (Suc n)
  from Suc.prems have "\<exists>v. getUint32 view (int n) = Inr v"
    by (simp add: getUint32_def getUint_def)
  then obtain v where v: "getUint32 view (int n) = Inr v" ..
  have unfold: "findEOCDR_loop view (int (Suc n)) =
      (if v = HEADER_EOCDR then Inr n else findEOCDR_loop view (int n))"
    using v by (subst findEOCDR_loop.simps) simp
  from Suc have ih: "findEOCDR_loop view (int n) =
     (case scan_back view n of
        None \<Rightarrow> Inl (Error ''No end of central directory record found'')
      | Some p \<Rightarrow> Inr p)" by simp
  show ?case
    unfolding unfold ih using v by (simp add: magic_at_def)
qed

lemma findEOCDR_short: "length view < 4 \<Longrightarrow> findEOCDR view = Inl RangeError"
  unfolding findEOCDR_def
  by (subst findEOCDR_loop.simps) (simp add: getUint32_def getUint_def)

text \<open>
  C8 (as amended). For every buffer of at least four bytes, \<open>findEOCDR\<close> tests the positions
  \<open>length - 5\<close> down to \<open>0\<close> and returns the first at which the signature is read, that is the
  match closest to the end among them; it throws "No end of central directory record found"
  exactly when none of these positions matches. A buffer shorter than four bytes makes the
  first read throw a RangeError.
\<close>

theorem findEOCDR_scans_from_length_minus_5:
  "findEOCDR view =
     (if length view < 4 then Inl RangeError
      else case scan_back view (length view - 4) of
             None \<Rightarrow> Inl (Error ''No end of central directory record found'')
           | Some p \<Rightarrow> Inr p)"
proof (cases "length view < 4")
  case True
  then show ?thesis by (simp add: findEOCDR_short)
next
  case False
  then have "findEOCDR view = findEOCDR_loop view (int (length view - 4))"
    by (simp add: findEOCDR_def)
  also have "\<dots> = (case scan_back view (length view - 4) of
             None \<Rightarrow> Inl (Error ''No end of central directory record found'')
           | Some p \<Rightarrow> Inr p)"
    using False by (intro findEOCDR_loop_scan) simp
  finally show ?thesis using False by simp
qed

text \<open>
  C8 as stated fails: in \<open>c8_buffer\<close> the only candidate of the specification, position 0
  (\<open>length - 22\<close>), does not hold the signature, so the specification's scan finds nothing;
  \<open>findEOCDR\<close> returns position 8.
\<close>

theorem find_eocdr_counterexample:
  "find_eocdr_spec c8_buffer = None \<and> findEOCDR c8_buffer = Inr 8"
  by (simp add: find_eocdr_spec_def c8_buffer_def magic_at_def findEOCDR_def getUint32_def
      getUint_def HEADER_EOCDR_def findEOCDR_loop.simps)

section \<open>has and get\<close>

lemma map_of_Map_set: "map_of (Map_set m k v) = (map_of m)(k \<mapsto> v)"
  by (induction m k v rule: Map_set.induct) auto

lemma get_set_file:
  "get (set_file archive name file) name = Some \<lparr>ArchiveEntry.blob = file, compressed = False\<rparr>"
  by (simp add: get_def set_file_def map_of_Map_set)

lemma get_absent: "name \<notin> fst ` set (entries archive) \<Longrightarrow> get archive name = None"
  by (simp add: get_def map_of_eq_None_iff)

text \<open>
  C10 at a failing input: after \<open>set("a", file)\<close> the index holds an entry under \<open>"a"\<close>, which
  \<open>get\<close> returns, and \<open>has("a")\<close> is \<open>undefined\<close>, not \<open>true\<close>.
\<close>

theorem has_returns_undefined:
  "has (set_file \<lparr>entries = []\<rparr> (str ''a'') [0x78]) (str ''a'') = Undefined
   \<and> get (set_file \<lparr>entries = []\<rparr> (str ''a'') [0x78]) (str ''a'') = Some \<lparr>ArchiveEntry.blob = [0x78], compressed = False\<rparr>"
  by (simp add: has_def get_set_file)

section \<open>get_blob\<close>

lemma get_blob_deflate:
  "compression e = 8 \<Longrightarrow>
   get_blob decompress e s =
     (case inflated_entries s (ident (blob e)) of
        Some existing \<Rightarrow> (Inr existing, s)
      | None \<Rightarrow>
          (case decompress (blob e) of
             Inl err \<Rightarrow> (Inl err, s\<lparr>decompress_calls := decompress_calls s + 1\<rparr>)
           | Inr result \<Rightarrow>
               (Inr result,
                s\<lparr>decompress_calls := decompress_calls s + 1,
                  inflated_entries := (inflated_entries s)(ident (blob e) \<mapsto> result)\<rparr>)))"
  by (simp add: get_blob_def get_blob_issue_def get_blob_resume_def decompress_issue_def
      decompress_resume_def split: option.splits sum.splits)

text \<open>
  C2 at failing inputs: on an entry whose compression is STORE (0) \<open>get_blob\<close> throws
  "Incompatible compression type", and on an entry with the unsupported code 1 it returns the
  backing Blob.
\<close>

theorem get_blob_store_throws:
  "get_blob decompress (e\<lparr>compression := 0\<rparr>) s = (Inl (Error ''Incompatible compression type''), s)
   \<and> get_blob decompress (e\<lparr>compression := 1\<rparr>) s = (Inr (blob e), s)"
  by (simp add: get_blob_def get_blob_issue_def get_blob_resume_def assert_def)

section \<open>toBlob\<close>

lemma generateCentralHeader_throws:
  "\<exists>err. generateCentralHeader entry filename extraField fileComment = Inl err"
  by (simp add: generateCentralHeader_def bindE_def undeclared_def Let_def split: sum.splits)

lemma generateEOCDR_throws:
  "generateEOCDR cdOffset records = Inl (ReferenceError ''position'')"
  by (simp add: generateEOCDR_def bindE_def undeclared_def)

lemma toBlob_entries_throws:
  "es \<noteq> [] \<Longrightarrow> \<exists>err. toBlob_entries es offset parts directories = Inl err"
proof (cases es)
  case Nil
  then show ?thesis if "es \<noteq> []" using that by simp
next
  case (Cons p rest)
  obtain name entry where p: "p = (name, entry)" by (cases p)
  obtain err where "generateCentralHeader entry name None None = Inl err"
    using generateCentralHeader_throws by blast
  then show ?thesis
    by (simp add: Cons p Let_def split: sum.splits)
qed

lemma toBlob_throws: "\<exists>err. toBlob archive = Inl err"
proof (cases "entries archive = []")
  case True
  then show ?thesis
    by (simp add: toBlob_def bindE_def generateEOCDR_throws)
next
  case False
  then obtain err where "toBlob_entries (entries archive) 0 [] [] = Inl err"
    using toBlob_entries_throws by blast
  then show ?thesis
    by (simp add: toBlob_def bindE_def)
qed

text \<open>
  C1 at a failing input: the archive made by \<open>set("hello.txt", "hi")\<close> is not serialized.
  \<open>toBlob\<close> throws a RangeError while it writes the Central Directory record into a buffer
  of \<open>30 + n\<close> bytes, so there is no byte stream to parse.
\<close>

theorem toBlob_fromBlob_throws:
  "bindE (toBlob (set_file \<lparr>entries = []\<rparr> (str ''hello.txt'') [0x68, 0x69])) fromBlob = Inl RangeError"
  by (simp add: toBlob_def generateLocalHeader_def generateCentralHeader_def write_defs
      archive_defs)

text \<open>
  C3 at a failing input: with two entries whose names are long enough for the 42-byte prefix
  to fit the undersized buffer, \<open>toBlob\<close> reaches the local-position field of the first
  Central Directory record and throws a ReferenceError on \<open>localPosition\<close>: no record
  stores the offset of its Local header.
\<close>

theorem toBlob_localPosition_undeclared:
  "toBlob (set_file (set_file \<lparr>entries = []\<rparr> (str ''hello_world.txt'') [0x68, 0x69])
             (str ''second_entry.bin'') [0])
     = Inl (ReferenceError ''localPosition'')"
  by (simp add: toBlob_def generateLocalHeader_def generateCentralHeader_def undeclared_def
      write_defs archive_defs)

text \<open>
  C4 at a failing input: for the empty archive \<open>toBlob\<close> goes straight to \<open>generateEOCDR\<close>,
  which throws a ReferenceError on \<open>position\<close>: no EOCDR record is emitted.
\<close>

theorem toBlob_emits_no_EOCDR:
  "toBlob \<lparr>entries = []\<rparr> = Inl (ReferenceError ''position'')"
  by (simp add: toBlob_def bindE_def generateEOCDR_def undeclared_def)

section \<open>generate_local and readLocal\<close>

lemma generate_local_c5_entry:
  "generate_local c5_entry (str ''a'') =
     Inr [80, 75, 3, 4, 20, 0, 0, 0, 0, 0, 131, 24, 34, 80, 0, 0, 172, 42, 147, 216,
          2, 0, 0, 0, 2, 0, 1, 0, 0, 0, 97]"
  by (simp add: c5_entry_def generate_local_def dos_time_from_date_def ZIP_VERSION_def
      compressed_size_def write_defs)

text \<open>
  C5 at a failing input: the header that \<open>generate_local\<close> makes for \<open>c5_entry\<close> has the CRC
  and the two sizes at offsets 16, 20 and 24, and \<open>readLocal\<close> reads them at 14, 18 and 22. The
  entry holds CRC \<open>0xD8932AAC\<close> and sizes 2 and 2; the decoded header holds CRC \<open>0x2AAC0000\<close>,
  compressed size \<open>0x2D893\<close> and uncompressed size \<open>0x20000\<close>.
\<close>

theorem generate_local_readLocal_mismatch:
  "bindE (generate_local c5_entry (str ''a'')) (\<lambda>buffer. readLocal buffer 0) =
     Inr \<lparr>LocalHeader.signature = 0x04034b50, version = 20, flag = 0, compression = 0,
          time = 6275, date = 20514, crc = 0x2AAC0000, compressedSize = 0x2D893,
          uncompressedSize = 0x20000, nameLength = 1, fieldLength = 0, fileName = str ''a'',
          field = [], dataLocation = 31\<rparr>"
  by (simp only: generate_local_c5_entry) (simp add: read_defs)

text \<open>
  The sibling \<open>generate_cd\<close> of src/ZipEntry.ts, for comparison: it allocates \<open>46 + m + n + k\<close>
  bytes, takes the position of the Local header as an argument and writes it, and \<open>readCD\<close>
  recovers every field of the entry.
\<close>

lemma generate_cd_readCD_example:
  "bindE (generate_cd c5_entry (str ''a'') 1234) (\<lambda>buffer. readCD buffer 0) =
     Inr \<lparr>CentralHeader.signature = 0x02014b50, version = 20, minVersion = 20, flag = 0,
          compression = 0, time = 6275, date = 20514, crc = 0xD8932AAC, compressedSize = 2,
          uncompressedSize = 2, nameLength = 1, fieldLength = 0, commentLength = 0, disk = 0,
          internal = 0, external = 0, localPosition = 1234, fileName = str ''a'', field = [],
          comment = [], size_cd = 47\<rparr>"
  by (simp add: c5_entry_def generate_cd_def dos_time_from_date_def ZIP_VERSION_def
      compressed_size_def write_defs read_defs)

section \<open>fromBlob\<close>

lemmas parse_defs = fromBlob_def findEOCDR_def findEOCDR_loop.simps fromBlob_loop.simps
  addEntry_def endsWith_def slice_def

lemma readCD_signature:
  "readCD view p = Inr cd \<Longrightarrow> getUint32 view (int p) = Inr (CentralHeader.signature cd)"
  by (auto simp: readCD_def bindE_def split: sum.splits)

lemma addEntry_entry:
  assumes "addEntry view cd archive = Inr archive'" and "get archive' name = Some e"
  shows "get archive name = Some e \<or> entry_of_record view cd name e"
proof (cases "endsWith (CentralHeader.fileName cd) (str ''/'')")
  case True
  with assms show ?thesis by (simp add: addEntry_def)
next
  case False
  with assms(1) obtain local where
    local: "readLocal view (localPosition cd) = Inr local"
    and arch: "archive' =
      (if LocalHeader.compression local = 8
       then setCompressed archive (LocalHeader.fileName local)
              (slice view (dataLocation local) (dataLocation local + LocalHeader.compressedSize local))
       else set_file archive (LocalHeader.fileName local)
              (slice view (dataLocation local) (dataLocation local + LocalHeader.compressedSize local)))"
    by (auto simp: addEntry_def bindE_def Let_def split: sum.splits if_splits)
  show ?thesis
  proof (cases "name = LocalHeader.fileName local")
    case True
    with assms(2) have "e = \<lparr>ArchiveEntry.blob = slice view (dataLocation local)
          (dataLocation local + LocalHeader.compressedSize local),
        compressed = (LocalHeader.compression local = 8)\<rparr>"
      by (auto simp: arch get_def set_file_def setCompressed_def verifyPath_def map_of_Map_set
          split: if_splits)
    with True False local have "entry_of_record view cd name e"
      by (auto simp: entry_of_record_def)
    then show ?thesis ..
  next
    case False
    with assms(2) have "get archive name = Some e"
      by (auto simp: arch get_def set_file_def setCompressed_def verifyPath_def map_of_Map_set
          split: if_splits)
    then show ?thesis ..
  qed
qed

lemma fromBlob_loop_entries:
  "fromBlob_loop view offset len position archive = Inr archive' \<Longrightarrow>
   \<exists>records. cd_region view offset len position records
     \<and> (\<forall>name e. get archive' name = Some e \<longrightarrow>
           get archive name = Some e \<or> (\<exists>cd \<in> set records. entry_of_record view cd name e))"
proof (induction view offset len position archive rule: fromBlob_loop.induct)
  case (1 view offset len position archive)
  show ?case
  proof (cases "position < len")
    case False
    with "1.prems" have "archive' = archive" by (simp add: fromBlob_loop.simps)
    moreover from False have "cd_region view offset len position []"
      by (intro region_end) simp
    ultimately show ?thesis by blast
  next
    case True
    with "1.prems"(1) obtain cd archive'' where
      sig: "getUint32 view (int (position + offset)) = Inr HEADER_CD"
      and cd: "readCD view (position + offset) = Inr cd"
      and add: "addEntry view cd archive = Inr archive''"
      and rest: "fromBlob_loop view offset len (position + size_cd cd) archive'' = Inr archive'"
      by (subst (asm) fromBlob_loop.simps) (auto split: sum.splits if_splits)
    have signature: "CentralHeader.signature cd = HEADER_CD"
      using readCD_signature [OF cd] sig by simp
    from "1.IH" True sig cd add rest obtain records where
      region: "cd_region view offset len (position + size_cd cd) records"
      and later: "\<forall>name e. get archive' name = Some e \<longrightarrow>
           get archive'' name = Some e \<or> (\<exists>c \<in> set records. entry_of_record view c name e)"
      by blast
    from True cd signature region have "cd_region view offset len position (cd # records)"
      by (rule region_record)
    moreover have "\<forall>name e. get archive' name = Some e \<longrightarrow>
           get archive name = Some e
           \<or> (\<exists>c \<in> set (cd # records). entry_of_record view c name e)"
    proof (intro allI impI)
      fix name e
      assume "get archive' name = Some e"
      with later have "get archive'' name = Some e
          \<or> (\<exists>c \<in> set records. entry_of_record view c name e)" by blast
      then show "get archive name = Some e
          \<or> (\<exists>c \<in> set (cd # records). entry_of_record view c name e)"
        using addEntry_entry [OF add] by auto
    qed
    ultimately show ?thesis by blast
  qed
qed

lemma fromBlob_c6_buffer:
  "fromBlob c6_buffer = Inr \<lparr>entries = [(str ''a'', \<lparr>ArchiveEntry.blob = [], compressed = False\<rparr>)]\<rparr>"
  by (simp add: c6_buffer_def parse_defs read_defs archive_defs)

text \<open>
  C6 (as amended). Every entry of an archive returned by \<open>fromBlob\<close> is taken from a Local
  header: some record of the Central Directory region that \<open>fromBlob\<close> walks (the region that
  the EOCDR found by \<open>findEOCDR\<close> declares), not a folder, gives the position of the Local
  header, and the Local header gives the entry's name, its flag (compressed exactly when the
  Local compression method is 8) and, with its data offset and its own compressed size, the
  slice that is the entry's backing bytes.
\<close>

theorem fromBlob_entries_taken_from_local:
  assumes "fromBlob buffer = Inr archive" and "get archive name = Some e"
  shows "taken_from_local buffer name e"
proof -
  from assms(1) obtain p and E :: EOCDRecord where
    found: "findEOCDR buffer = Inr p" and decoded: "readEOCDR buffer p = Inr E"
    and loop: "fromBlob_loop buffer (CDOffset E) (CDLength E) 0 \<lparr>entries = []\<rparr> = Inr archive"
    by (auto simp: fromBlob_def bindE_def split: sum.splits)
  from fromBlob_loop_entries [OF loop] obtain records where
    region: "cd_region buffer (CDOffset E) (CDLength E) 0 records"
    and from_record: "\<forall>name e. get archive name = Some e \<longrightarrow>
        get \<lparr>entries = []\<rparr> name = Some e \<or> (\<exists>cd \<in> set records. entry_of_record buffer cd name e)"
    by blast
  have "get \<lparr>entries = []\<rparr> name \<noteq> Some e"
    by (simp add: get_def)
  with from_record assms(2) obtain cd where
    "cd \<in> set records" "entry_of_record buffer cd name e"
    by blast
  with found decoded region show ?thesis
    unfolding taken_from_local_def by blast
qed

theorem fromBlob_entries_taken_from_local_witness:
  "fromBlob c6_buffer = Inr \<lparr>entries = [(str ''a'', \<lparr>ArchiveEntry.blob = [], compressed = False\<rparr>)]\<rparr>
   \<and> get \<lparr>entries = [(str ''a'', \<lparr>ArchiveEntry.blob = [], compressed = False\<rparr>)]\<rparr> (str ''a'')
       = Some \<lparr>ArchiveEntry.blob = [], compressed = False\<rparr>
   \<and> taken_from_local c6_buffer (str ''a'') \<lparr>ArchiveEntry.blob = [], compressed = False\<rparr>"
proof -
  have parsed: "fromBlob c6_buffer =
      Inr \<lparr>entries = [(str ''a'', \<lparr>ArchiveEntry.blob = [], compressed = False\<rparr>)]\<rparr>"
    by (rule fromBlob_c6_buffer)
  have found: "get \<lparr>entries = [(str ''a'', \<lparr>ArchiveEntry.blob = [], compressed = False\<rparr>)]\<rparr> (str ''a'')
      = Some \<lparr>ArchiveEntry.blob = [], compressed = False\<rparr>"
    by (simp add: get_def)
  from fromBlob_entries_taken_from_local [OF parsed found] parsed found
  show ?thesis by simp
qed

text \<open>
  C6 as stated fails on \<open>c6_buffer\<close>: the Central Directory record of \<open>a\<close> declares a compressed
  size of 2 and the two bytes of "hi" stand at the data offset 31, but the entry that
  \<open>fromBlob\<close> builds has no backing byte, since the Local header declares size 0.
\<close>

theorem fromBlob_central_directory_counterexample:
  "map_sum id (\<lambda>cd. (CentralHeader.fileName cd, CentralHeader.compressedSize cd,
                      CentralHeader.crc cd, localPosition cd)) (readCD c6_buffer 49)
     = Inr (str ''a'', 2, 0xD8932AAC, 0)
   \<and> map_sum id (\<lambda>local. (LocalHeader.compressedSize local, dataLocation local))
         (readLocal c6_buffer 0) = Inr (0, 31)
   \<and> slice c6_buffer 31 (31 + 2) = [0x68, 0x69]
   \<and> fromBlob c6_buffer
       = Inr \<lparr>entries = [(str ''a'', \<lparr>ArchiveEntry.blob = [], compressed = False\<rparr>)]\<rparr>"
  by (simp add: fromBlob_c6_buffer) (simp add: c6_buffer_def read_defs slice_def)

text \<open>
  The other direction: every record of the walked region that is not a folder has its Local
  header read, and the returned archive holds an entry under that header's filename.
\<close>

lemma addEntry_keeps:
  assumes "addEntry view cd archive = Inr archive'" and "get archive name \<noteq> None"
  shows "get archive' name \<noteq> None"
  using assms
  by (auto simp: addEntry_def bindE_def Let_def get_def set_file_def setCompressed_def
      verifyPath_def map_of_Map_set split: sum.splits if_splits)

lemma addEntry_adds:
  assumes "addEntry view cd archive = Inr archive'"
    and "\<not> endsWith (CentralHeader.fileName cd) (str ''/'')"
  shows "\<exists>local. readLocal view (localPosition cd) = Inr local
           \<and> get archive' (LocalHeader.fileName local) \<noteq> None"
  using assms
  by (auto simp: addEntry_def bindE_def Let_def get_def set_file_def setCompressed_def
      verifyPath_def map_of_Map_set split: sum.splits if_splits)

lemma fromBlob_loop_keeps:
  "fromBlob_loop view offset len position archive = Inr archive' \<Longrightarrow>
   get archive name \<noteq> None \<Longrightarrow> get archive' name \<noteq> None"
proof (induction view offset len position archive rule: fromBlob_loop.induct)
  case (1 view offset len position archive)
  show ?case
  proof (cases "position < len")
    case False
    with "1.prems" show ?thesis by (simp add: fromBlob_loop.simps)
  next
    case True
    with "1.prems"(1) obtain cd archive'' where
      sig: "getUint32 view (int (position + offset)) = Inr HEADER_CD"
      and cd: "readCD view (position + offset) = Inr cd"
      and add: "addEntry view cd archive = Inr archive''"
      and rest: "fromBlob_loop view offset len (position + size_cd cd) archive'' = Inr archive'"
      by (subst (asm) fromBlob_loop.simps) (auto split: sum.splits if_splits)
    from addEntry_keeps [OF add "1.prems"(2)] have "get archive'' name \<noteq> None" .
    with "1.IH" True sig cd add rest show ?thesis by blast
  qed
qed

inductive_cases cd_region_ConsE: "cd_region view offset len position (cd # records)"

lemma fromBlob_loop_covers:
  "fromBlob_loop view offset len position archive = Inr archive' \<Longrightarrow>
   cd_region view offset len position records \<Longrightarrow> cd \<in> set records \<Longrightarrow>
   \<not> endsWith (CentralHeader.fileName cd) (str ''/'') \<Longrightarrow>
   \<exists>local. readLocal view (localPosition cd) = Inr local
     \<and> get archive' (LocalHeader.fileName local) \<noteq> None"
proof (induction view offset len position archive arbitrary: records
    rule: fromBlob_loop.induct)
  case (1 view offset len position archive)
  from "1.prems"(2,3) obtain c rest where records: "records = c # rest"
    by (cases records) auto
  with "1.prems"(2) have lt: "position < len"
    and c: "readCD view (position + offset) = Inr c"
    and region: "cd_region view offset len (position + size_cd c) rest"
    by (auto elim: cd_region_ConsE)
  from lt "1.prems"(1) obtain cd' archive'' where
    sig: "getUint32 view (int (position + offset)) = Inr HEADER_CD"
    and cd': "readCD view (position + offset) = Inr cd'"
    and add: "addEntry view cd' archive = Inr archive''"
    and loop: "fromBlob_loop view offset len (position + size_cd cd') archive'' = Inr archive'"
    by (subst (asm) fromBlob_loop.simps) (auto split: sum.splits if_splits)
  from c cd' have same: "cd' = c" by simp
  show ?case
  proof (cases "cd = c")
    case True
    with addEntry_adds [OF add] same "1.prems"(4) obtain local where
      "readLocal view (localPosition cd) = Inr local"
      "get archive'' (LocalHeader.fileName local) \<noteq> None"
      by auto
    with fromBlob_loop_keeps [OF loop] show ?thesis by blast
  next
    case False
    with "1.prems"(3) records have "cd \<in> set rest" by simp
    with "1.IH" [OF lt sig _ cd' add loop] same region "1.prems"(4) show ?thesis
      by simp
  qed
qed

lemma fromBlob_records_have_entries:
  assumes "fromBlob buffer = Inr archive"
    and "findEOCDR buffer = Inr p" and "readEOCDR buffer p = Inr E"
    and "cd_region buffer (CDOffset E) (CDLength E) 0 records" and "cd \<in> set records"
    and "\<not> endsWith (CentralHeader.fileName cd) (str ''/'')"
  shows "\<exists>local. readLocal buffer (localPosition cd) = Inr local
           \<and> get archive (LocalHeader.fileName local) \<noteq> None"
proof -
  from assms(1,2,3) have
    "fromBlob_loop buffer (CDOffset E) (CDLength E) 0 \<lparr>entries = []\<rparr> = Inr archive"
    by (simp add: fromBlob_def bindE_def)
  from fromBlob_loop_covers [OF this assms(4,5,6)] show ?thesis .
qed








section \<open>The decompression cache under several calls\<close>

lemmas call_defs = run_schedule_def run_call_def get_blob_issue_def get_blob_resume_def
  decompress_issue_def decompress_resume_def

lemma run_call_issue:
  "length xs = i \<Longrightarrow>
   run_call d e i (xs @ None # ys, s) =
     (xs @ Some (fst (get_blob_issue d e s)) # ys, snd (get_blob_issue d e s))"
  by (auto simp: run_call_def nth_append list_update_length split: prod.splits)

lemma run_call_resume:
  "length xs = i \<Longrightarrow>
   run_call d e i (xs @ Some p # ys, s) =
     (xs @ Some (Settled (fst (get_blob_resume e p s))) # ys, snd (get_blob_resume e p s))"
  by (auto simp: run_call_def nth_append list_update_length split: prod.splits)

lemma sequential_calls_Suc: "sequential_calls (Suc k) = sequential_calls k @ [k, k]"
  by (simp add: sequential_calls_def)

lemma one_call_first:
  assumes "compression e = 8" "d (blob e) = Inr result" "length xs = i"
  shows "run_call d e i (run_call d e i (xs @ None # ys, s)) =
           (xs @ Some (Settled (Inr (observed e result s))) # ys, after_first e result s)"
  using assms
  by (simp add: run_call_issue run_call_resume get_blob_issue_def get_blob_resume_def
      decompress_issue_def decompress_resume_def observed_def after_first_def
      split: option.splits)

lemma after_first_cached:
  "inflated_entries (after_first e result s) (ident (blob e)) = Some (observed e result s)"
  by (simp add: after_first_def observed_def split: option.splits)

lemma one_call_cached:
  assumes "compression e = 8" "inflated_entries s (ident (blob e)) = Some r" "length xs = i"
  shows "run_call d e i (run_call d e i (xs @ None # ys, s)) =
           (xs @ Some (Settled (Inr r)) # ys, s)"
  using assms
  by (simp add: run_call_issue run_call_resume get_blob_issue_def get_blob_resume_def
      decompress_issue_def)

lemma sequential_prefix:
  assumes "compression e = 8" "d (blob e) = Inr result"
  shows "k \<le> n \<Longrightarrow>
     run_schedule d e (sequential_calls k) (replicate n None, s) =
       (replicate k (Some (Settled (Inr (observed e result s)))) @ replicate (n - k) None,
        if k = 0 then s else after_first e result s)"
proof (induction k)
  case 0
  then show ?case by (simp add: sequential_calls_def run_schedule_def)
next
  case (Suc k)
  then have ih: "run_schedule d e (sequential_calls k) (replicate n None, s) =
       (replicate k (Some (Settled (Inr (observed e result s)))) @ replicate (n - k) None,
        if k = 0 then s else after_first e result s)" by simp
  from Suc.prems have rest: "replicate (n - k) (None :: pending option) = None # replicate (n - Suc k) None"
    by (metis Suc_diff_Suc Suc_le_lessD replicate_Suc)
  have len: "length (replicate k (Some (Settled (Inr (observed e result s))))) = k" by simp
  show ?case
  proof (cases "k = 0")
    case True
    then show ?thesis
      using one_call_first [where e = e and d = d and result = result and xs = "[]" and i = 0
          and ys = "replicate (n - Suc 0) None" and s = s] assms rest
      by (simp add: sequential_calls_def run_schedule_def)
  next
    case False
    have "run_schedule d e (sequential_calls (Suc k)) (replicate n None, s) =
        run_call d e k (run_call d e k (run_schedule d e (sequential_calls k) (replicate n None, s)))"
      by (simp add: sequential_calls_Suc run_schedule_def)
    also have "\<dots> = run_call d e k (run_call d e k
        (replicate k (Some (Settled (Inr (observed e result s)))) @ None # replicate (n - Suc k) None,
         after_first e result s))"
      using False by (simp add: ih rest)
    also have "\<dots> = (replicate k (Some (Settled (Inr (observed e result s))))
          @ Some (Settled (Inr (observed e result s))) # replicate (n - Suc k) None,
         after_first e result s)"
      using one_call_cached [where e = e and d = d and s = "after_first e result s"
          and r = "observed e result s" and i = k
          and xs = "replicate k (Some (Settled (Inr (observed e result s))))"
          and ys = "replicate (n - Suc k) None"] assms(1) after_first_cached len
      by simp
    finally show ?thesis
      by (simp add: replicate_append_same)
  qed
qed


text \<open>
  C7 (as amended). For a DEFLATE entry whose backing Blob the collaborator decompresses, and
  \<open>n > 0\<close> calls of \<open>get_blob\<close> each awaited before the next is issued: every caller observes
  the same Blob (the cached one, or the collaborator's result), and the collaborator is
  invoked once when the Blob was not cached and not at all when it was.
\<close>

theorem sequential_get_blob_single_decompression:
  assumes "compression e = 8" and "decompress (blob e) = Inr result" and "0 < n"
  shows "run_schedule decompress e (sequential_calls n) (replicate n None, s) =
           (replicate n (Some (Settled (Inr (observed e result s)))), after_first e result s)"
  using sequential_prefix [where e = e and d = decompress and result = result and k = n
      and n = n and s = s] assms by simp


theorem sequential_get_blob_single_decompression_witness:
  "compression c7_entry = 8
   \<and> c7_decompress (blob c7_entry) = Inr \<lparr>ident = 1, content = [0x68, 0x69]\<rparr>
   \<and> (0 :: nat) < 2
   \<and> fst (run_schedule c7_decompress c7_entry (sequential_calls 2) (replicate 2 None, empty_cache))
       = [Some (Settled (Inr \<lparr>ident = 1, content = [0x68, 0x69]\<rparr>)),
          Some (Settled (Inr \<lparr>ident = 1, content = [0x68, 0x69]\<rparr>))]
   \<and> decompress_calls
         (snd (run_schedule c7_decompress c7_entry (sequential_calls 2)
                 (replicate 2 None, empty_cache))) = 1"
proof -
  have deflate: "compression c7_entry = 8"
    by (simp add: c7_entry_def)
  have inflated: "c7_decompress (blob c7_entry) = Inr \<lparr>ident = 1, content = [0x68, 0x69]\<rparr>"
    by (simp add: c7_entry_def c7_decompress_def)
  have two: "(0 :: nat) < 2" by simp
  from sequential_get_blob_single_decompression
         [where e = c7_entry and decompress = c7_decompress
            and result = "\<lparr>ident = 1, content = [0x68, 0x69]\<rparr>" and n = 2
            and s = empty_cache, OF deflate inflated two]
    deflate inflated
  show ?thesis
    by (simp add: observed_def after_first_def empty_cache_def replicate_numeral)
qed

text \<open>
  C7 as stated fails for two calls issued together: each runs up to its \<open>await\<close> before the
  cache is filled, and the collaborator is invoked twice.
\<close>

theorem concurrent_get_blob_counterexample:
  "decompress_calls
     (snd (run_schedule c7_decompress c7_entry (concurrent_calls 2) ([None, None], empty_cache)))
     = 2"
  by (simp add: call_defs concurrent_calls_def c7_entry_def c7_decompress_def empty_cache_def
      upt_rec)

text \<open>
  The count for any number of calls issued together: from a state that has not cached the
  Blob, \<open>n\<close> calls issued before any is resumed invoke the collaborator \<open>n\<close> times.
\<close>

lemma issue_phase:
  assumes "compression e = 8" "inflated_entries s (ident (blob e)) = None"
  shows "k \<le> n \<Longrightarrow>
     run_schedule d e [0..<k] (replicate n None, s) =
       (replicate k (Some (Awaiting (d (blob e)))) @ replicate (n - k) None,
        s\<lparr>decompress_calls := decompress_calls s + k\<rparr>)"
proof (induction k)
  case 0
  then show ?case by (simp add: run_schedule_def)
next
  case (Suc k)
  then have ih: "run_schedule d e [0..<k] (replicate n None, s) =
       (replicate k (Some (Awaiting (d (blob e)))) @ replicate (n - k) None,
        s\<lparr>decompress_calls := decompress_calls s + k\<rparr>)" by simp
  from Suc.prems have rest:
    "replicate (n - k) (None :: pending option) = None # replicate (n - Suc k) None"
    by (metis Suc_diff_Suc Suc_le_lessD replicate_Suc)
  have "run_schedule d e [0..<Suc k] (replicate n None, s) =
      run_call d e k (run_schedule d e [0..<k] (replicate n None, s))"
    by (simp add: run_schedule_def)
  also have "\<dots> = run_call d e k
      (replicate k (Some (Awaiting (d (blob e)))) @ None # replicate (n - Suc k) None,
       s\<lparr>decompress_calls := decompress_calls s + k\<rparr>)"
    by (simp add: ih rest)
  also have "\<dots> = (replicate k (Some (Awaiting (d (blob e))))
        @ Some (Awaiting (d (blob e))) # replicate (n - Suc k) None,
       s\<lparr>decompress_calls := decompress_calls s + Suc k\<rparr>)"
    using assms
    by (simp add: run_call_issue get_blob_issue_def decompress_issue_def)
  finally show ?case
    by (simp add: replicate_append_same)
qed

lemma run_call_issued:
  assumes "\<forall>c \<in> set calls. c \<noteq> None"
  shows "decompress_calls (snd (run_call d e i (calls, s))) = decompress_calls s
         \<and> (\<forall>c \<in> set (fst (run_call d e i (calls, s))). c \<noteq> None)"
proof (cases "i < length calls")
  case False
  with assms show ?thesis by (simp add: run_call_def)
next
  case True
  with assms obtain p where p: "calls ! i = Some p"
    by (metis nth_mem not_Some_eq)
  have calls: "decompress_calls (snd (get_blob_resume e p s)) = decompress_calls s"
    by (simp add: get_blob_resume_def decompress_resume_def split: pending.splits sum.splits)
  from True p have "run_call d e i (calls, s) =
      (calls[i := Some (Settled (fst (get_blob_resume e p s)))], snd (get_blob_resume e p s))"
    by (simp add: run_call_def split: prod.splits)
  with assms calls show ?thesis
    by (auto dest: set_update_subset_insert [THEN subsetD])
qed

lemma resume_phase:
  "\<forall>c \<in> set calls. c \<noteq> None \<Longrightarrow>
   decompress_calls (snd (run_schedule d e schedule (calls, s))) = decompress_calls s"
proof (induction schedule arbitrary: calls s)
  case Nil
  then show ?case by (simp add: run_schedule_def)
next
  case (Cons i schedule)
  obtain calls' s' where step: "run_call d e i (calls, s) = (calls', s')"
    by (cases "run_call d e i (calls, s)")
  with run_call_issued [OF Cons.prems, of d e i s]
  have "decompress_calls s' = decompress_calls s" "\<forall>c \<in> set calls'. c \<noteq> None"
    by simp_all
  with Cons.IH [of calls' s'] step show ?case
    by (simp add: run_schedule_def)
qed

lemma concurrent_calls_invoke_each:
  assumes "compression e = 8" "inflated_entries s (ident (blob e)) = None"
  shows "decompress_calls (snd (run_schedule d e (concurrent_calls n) (replicate n None, s)))
           = decompress_calls s + n"
proof -
  have "run_schedule d e (concurrent_calls n) (replicate n None, s) =
      run_schedule d e [0..<n] (run_schedule d e [0..<n] (replicate n None, s))"
    by (simp add: concurrent_calls_def run_schedule_def)
  also have "\<dots> = run_schedule d e [0..<n]
      (replicate n (Some (Awaiting (d (blob e)))), s\<lparr>decompress_calls := decompress_calls s + n\<rparr>)"
    using issue_phase [OF assms, of n n d] by simp
  finally show ?thesis
    by (simp add: resume_phase)
qed

end
